theory Spec2Isabelle
  imports Complex_Main "HOL-Library.Multiset"
begin

section \<open>Python values used by \<open>scripts/convert.py\<close>\<close>

text \<open>
  A Python \<open>str\<close> is modelled as an Isabelle \<open>string\<close> holding its UTF-8 bytes. The
  program only concatenates, repeats, compares and formats strings, all of which
  commute with the encoding; the single exception is \<open>str.title\<close>, which is modelled
  on ASCII letters. Python integers are unbounded and become \<open>int\<close>.
\<close>

definition CR :: string where
  "CR = [CHR 0x0D]"

definition LF :: string where
  "LF = [CHR 0x0A]"

text \<open>The two bar glyphs of \<open>print_progress\<close>: U+2588 (full block) and U+2591 (light shade).\<close>

definition FULL_BLOCK :: string where
  "FULL_BLOCK = [CHR 0xE2, CHR 0x96, CHR 0x88]"

definition LIGHT_SHADE :: string where
  "LIGHT_SHADE = [CHR 0xE2, CHR 0x96, CHR 0x91]"

text \<open>\<open>s * n\<close> on a string: \<open>n\<close> copies, none when \<open>n\<close> is zero or negative.\<close>

definition str_mul :: "string \<Rightarrow> int \<Rightarrow> string" where
  "str_mul s n = concat (replicate (nat n) s)"

text \<open>\<open>str(n)\<close> for an integer: decimal digits, with a minus sign when negative.\<close>

fun str_nat :: "nat \<Rightarrow> string" where
  "str_nat n = (if n < 10 then [''0123456789'' ! n]
                else str_nat (n div 10) @ [''0123456789'' ! (n mod 10)])"

declare str_nat.simps [simp del]

definition str_int :: "int \<Rightarrow> string" where
  "str_int i = (if i < 0 then ''-'' @ str_nat (nat (- i)) else str_nat (nat i))"

text \<open>
  \<open>a / b\<close> on two integers is Python's true division and \<open>int(x)\<close> truncates towards
  zero. The quotient is taken in the reals: the double that Python computes is the
  correctly rounded quotient, and for the magnitudes that occur here (below \<open>2^53 / 100\<close>)
  rounding never crosses an integer, so the truncation agrees.
\<close>

definition truediv :: "int \<Rightarrow> int \<Rightarrow> real" where
  "truediv a b = real_of_int a / real_of_int b"

definition py_int :: "real \<Rightarrow> int" where
  "py_int x = (if 0 \<le> x then \<lfloor>x\<rfloor> else \<lceil>x\<rceil>)"

text \<open>\<open>d.get(k, default)\<close> on a dictionary given as a partial map.\<close>

definition dict_get :: "('k \<rightharpoonup> 'v) \<Rightarrow> 'k \<Rightarrow> 'v \<Rightarrow> 'v" where
  "dict_get d k dflt = (case d k of None \<Rightarrow> dflt | Some v \<Rightarrow> v)"

text \<open>\<open>job.get(key, default)\<close> on a field that is present (\<open>Some\<close>) or absent (\<open>None\<close>).\<close>

definition get_or :: "'a option \<Rightarrow> 'a \<Rightarrow> 'a" where
  "get_or field dflt = (case field of None \<Rightarrow> dflt | Some v \<Rightarrow> v)"

section \<open>Rotation mapping\<close>

text \<open>
  \<^verbatim>\<open>return {0: 0, 90: 1, 270: 2, 180: 3}.get(degrees, 0)\<close>
\<close>

definition rotate_to_transpose :: "int \<Rightarrow> int" where
  "rotate_to_transpose degrees =
     dict_get (map_of [(0, 0), (90, 1), (270, 2), (180, 3)]) degrees 0"

section \<open>Progress reporter\<close>

text \<open>
  \<open>print_progress\<close> writes one string to \<open>sys.stdout\<close>. Standard output is the list of
  strings written so far; the function returns it extended by the new line.
\<close>

definition print_progress :: "string \<Rightarrow> int \<Rightarrow> int \<Rightarrow> string \<Rightarrow> string list \<Rightarrow> string list" where
  "print_progress status progress current_pass end' out =
     (let bar_width = 30;
          filled = py_int (truediv (bar_width * progress) 100);
          bar = str_mul FULL_BLOCK filled @ str_mul LIGHT_SHADE (bar_width - filled);
          pass_info = (if current_pass > 0
                       then '' (Pass '' @ str_int current_pass @ ''/3)'' else '''')
      in out @ [CR @ status @ pass_info @ '': ['' @ bar @ ''] '' @ str_int progress @ ''%''
                @ str_mul '' '' 10 @ end'])"

section \<open>Exceptions, responses and the scripted world\<close>

text \<open>
  An exception is its class and the text \<open>str(e)\<close> gives; \<open>sys.exit(n)\<close> raises
  \<open>SystemExit\<close> with the exit status. The \<open>Requests_\<close> classes are those of
  \<open>requests.exceptions\<close>; \<open>Requests_ConnectTimeout\<close> is a subclass of
  \<open>Requests_ConnectionError\<close>, \<open>Requests_ReadTimeout\<close> is not.
\<close>

datatype exn_class =
    TimeoutError | RuntimeError | KeyError | AttributeError | OSError
  | Requests_ConnectionError | Requests_ConnectTimeout | Requests_ReadTimeout
  | Requests_HTTPError | Requests_JSONDecodeError | KeyboardInterrupt

datatype exn = Exn exn_class string | SystemExit int

text \<open>The value a function returns: \<open>None\<close> when it has no \<open>return\<close> statement.\<close>

datatype pyval = PyNone | PyInt int

type_synonym bytes = "char list"

text \<open>
  A JSON object as the program reads it. Every key the program looks up is a field,
  absent (\<open>None\<close>) or present with the type the wire schema gives it; keys the program
  never reads play no part. An entry of \<open>jobs\<close> is an object whose \<open>id\<close> may be missing.
\<close>

record jobref =
  ref_id :: "string option"

record json_object =
  status :: "string option"
  progress :: "int option"
  current_pass :: "int option"
  error_message :: "string option"
  original_size :: "int option"
  converted_size :: "int option"
  converted_width :: "int option"
  converted_height :: "int option"
  error :: "string option"
  jobs :: "jobref list option"

text \<open>
  What \<open>response.json()\<close> does: it raises (the body is not JSON; the string is the
  decoder's message), or returns a value that is not a dictionary (the string is the
  name of its Python type), or returns a dictionary.
\<close>

datatype parsed = NotJSON string | NotDict string | Dict json_object

record response =
  status_code :: int
  reason :: string
  url :: string
  content_length :: "int option"
  body_text :: string
  json :: parsed
  chunks :: "bytes list"
  stream_error :: "exn option"

text \<open>A string between single quotes, as \<open>repr\<close> shows one that needs no escape.\<close>

definition quoted :: "string \<Rightarrow> string" where
  "quoted s = [CHR 0x27] @ s @ [CHR 0x27]"

text \<open>The \<open>AttributeError\<close> of a method looked up on a value that has none.\<close>

definition no_attribute :: "string \<Rightarrow> string \<Rightarrow> exn" where
  "no_attribute ty attr =
     Exn AttributeError (quoted ty @ '' object has no attribute '' @ quoted attr)"

text \<open>
  \<open>Response.raise_for_status\<close> and \<open>Response.ok\<close> as the requests library defines them:
  an error for a status from 400 to 599, and \<open>ok\<close> when \<open>raise_for_status\<close> does not
  raise.
\<close>

definition raise_for_status :: "response \<Rightarrow> exn option" where
  "raise_for_status r =
     (if 400 \<le> status_code r \<and> status_code r < 500
      then Some (Exn Requests_HTTPError
             (str_int (status_code r) @ '' Client Error: '' @ reason r @ '' for url: '' @ url r))
      else if 500 \<le> status_code r \<and> status_code r < 600
      then Some (Exn Requests_HTTPError
             (str_int (status_code r) @ '' Server Error: '' @ reason r @ '' for url: '' @ url r))
      else None)"

definition ok :: "response \<Rightarrow> bool" where
  "ok r = (raise_for_status r = None)"

text \<open>The conversion options sent with the upload (\<open>json.dumps\<close> is not unfolded).\<close>

record options =
  width :: "int option"
  height :: "int option"
  transpose' :: int
  input_fps :: "real option"
  output_fps :: "real option"
  minterpolate_fps :: "real option"
  background_color :: "string option"
  background_image_id :: "unit option"
  compress_output :: bool

text \<open>
  A request as the program issues it: the URL, and for the upload the \<open>files\<close>
  dictionary (field, file name, path of the open handle) and the options that
  \<open>data\<close> carries.
\<close>

datatype request =
    Get string
  | Get_timeout string int
  | Get_stream string
  | Post string "(string \<times> string \<times> string) list" options

datatype node = File bytes | Dir

text \<open>
  The world the program runs in. \<open>clock\<close> holds the successive readings of
  \<open>time.time()\<close> and \<open>replies\<close> the outcomes of the successive calls of \<open>requests\<close>
  (an exception raised, or a response); each call consumes the next entry, and a
  function whose script runs out yields \<open>None\<close>. \<open>requested\<close> logs the requests made,
  \<open>slept\<close> the arguments of \<open>time.sleep\<close>, \<open>fs\<close> is the file system, \<open>open_files\<close>
  lists the paths of the file objects that are open, and \<open>stdout\<close> and \<open>stderr\<close>
  list the strings written, one entry for each \<open>print\<close> or \<open>write\<close>.
\<close>

record world =
  clock :: "real list"
  replies :: "(exn + response) list"
  requested :: "request list"
  slept :: "real list"
  fs :: "string \<rightharpoonup> node"
  open_files :: "string list"
  stdout :: "string list"
  stderr :: "string list"

definition time_time :: "world \<Rightarrow> (real \<times> world) option" where
  "time_time w = (case clock w of [] \<Rightarrow> None | t # ts \<Rightarrow> Some (t, w\<lparr>clock := ts\<rparr>))"

definition time_sleep :: "real \<Rightarrow> world \<Rightarrow> world" where
  "time_sleep d w = w\<lparr>slept := slept w @ [d]\<rparr>"

definition requests_call :: "request \<Rightarrow> world \<Rightarrow> ((exn + response) \<times> world) option" where
  "requests_call rq w =
     (case replies w of
        [] \<Rightarrow> None
      | r # rs \<Rightarrow> Some (r, w\<lparr>replies := rs, requested := requested w @ [rq]\<rparr>))"

definition print :: "string \<Rightarrow> world \<Rightarrow> world" where
  "print s w = w\<lparr>stdout := stdout w @ [s @ LF]\<rparr>"

definition eprint :: "string \<Rightarrow> world \<Rightarrow> world" where
  "eprint s w = w\<lparr>stderr := stderr w @ [s @ LF]\<rparr>"

definition progress_out :: "string \<Rightarrow> int \<Rightarrow> int \<Rightarrow> string \<Rightarrow> world \<Rightarrow> world" where
  "progress_out label percent pass end' w =
     w\<lparr>stdout := print_progress label percent pass end' (stdout w)\<rparr>"

subsection \<open>Files\<close>

definition exists :: "string \<Rightarrow> world \<Rightarrow> bool" where
  "exists path w = (fs w path \<noteq> None)"

text \<open>\<open>open(path, "rb")\<close>: the handle is named by its path.\<close>

definition open_rb :: "string \<Rightarrow> world \<Rightarrow> (exn + string) \<times> world" where
  "open_rb path w =
     (case fs w path of
        None \<Rightarrow> (Inl (Exn OSError (''[Errno 2] No such file or directory: '' @ quoted path)), w)
      | Some Dir \<Rightarrow> (Inl (Exn OSError (''[Errno 21] Is a directory: '' @ quoted path)), w)
      | Some (File _) \<Rightarrow> (Inr path, w\<lparr>open_files := open_files w @ [path]\<rparr>))"

text \<open>\<open>open(path, "wb")\<close>: creates or truncates the file.\<close>

definition open_wb :: "string \<Rightarrow> world \<Rightarrow> (exn + string) \<times> world" where
  "open_wb path w =
     (case fs w path of
        Some Dir \<Rightarrow> (Inl (Exn OSError (''[Errno 21] Is a directory: '' @ quoted path)), w)
      | _ \<Rightarrow> (Inr path, w\<lparr>fs := (fs w)(path \<mapsto> File []), open_files := open_files w @ [path]\<rparr>))"

definition close :: "string \<Rightarrow> world \<Rightarrow> world" where
  "close h w = w\<lparr>open_files := remove1 h (open_files w)\<rparr>"

definition file_write :: "string \<Rightarrow> bytes \<Rightarrow> world \<Rightarrow> world" where
  "file_write h data w =
     (case fs w h of
        Some (File old) \<Rightarrow> w\<lparr>fs := (fs w)(h \<mapsto> File (old @ data))\<rparr>
      | _ \<Rightarrow> w)"

definition getsize :: "string \<Rightarrow> world \<Rightarrow> int" where
  "getsize path w = (case fs w path of Some (File content) \<Rightarrow> int (length content) | _ \<Rightarrow> 0)"

text \<open>\<open>os.path.basename\<close> and the root part of \<open>os.path.splitext\<close>, on POSIX paths.\<close>

definition basename :: "string \<Rightarrow> string" where
  "basename p = rev (takeWhile (\<lambda>c. c \<noteq> CHR ''/'') (rev p))"

definition splitext_root :: "string \<Rightarrow> string" where
  "splitext_root p =
     (let name = basename p;
          ext = takeWhile (\<lambda>c. c \<noteq> CHR ''.'') (rev name);
          stem = take (length name - length ext - 1) name
      in if length ext < length name \<and> (\<exists>c \<in> set stem. c \<noteq> CHR ''.'')
         then take (length p - length ext - 1) p else p)"

section \<open>Byte formatting\<close>

text \<open>
  \<open>f"{x:.1f}"\<close>: one decimal, the exact value rounded half to even. The sizes are taken
  in the reals; each division by 1024 is exact on doubles, so the idealisation is exact
  for sizes below \<open>2^53\<close>.
\<close>

definition round_half_even :: "real \<Rightarrow> int" where
  "round_half_even y =
     (let f = \<lfloor>y\<rfloor>; r = y - real_of_int f
      in if r < 1 / 2 then f else if 1 / 2 < r then f + 1
         else if even f then f else f + 1)"

definition fmt_1f :: "real \<Rightarrow> string" where
  "fmt_1f x =
     (let t = round_half_even (\<bar>x\<bar> * 10);
          digits = str_int (t div 10) @ ''.'' @ str_int (t mod 10)
      in if x < 0 then ''-'' @ digits else digits)"

fun format_bytes_from :: "string list \<Rightarrow> real \<Rightarrow> string" where
  "format_bytes_from [] size' = fmt_1f size' @ '' TB''"
| "format_bytes_from (unit # units) size' =
     (if size' < 1024 then fmt_1f size' @ '' '' @ unit
      else format_bytes_from units (size' / 1024))"

definition format_bytes :: "int \<Rightarrow> string" where
  "format_bytes size' = format_bytes_from [''B'', ''KB'', ''MB'', ''GB''] (real_of_int size')"

section \<open>Status poller\<close>

text \<open>\<open>str.title\<close> on ASCII: a letter is upper-cased after a character that is not a
  letter and lower-cased after a letter; other characters are kept.\<close>

definition to_upper :: "char \<Rightarrow> char" where
  "to_upper c =
     dict_get (map_of (zip ''abcdefghijklmnopqrstuvwxyz'' ''ABCDEFGHIJKLMNOPQRSTUVWXYZ'')) c c"

definition to_lower :: "char \<Rightarrow> char" where
  "to_lower c =
     dict_get (map_of (zip ''ABCDEFGHIJKLMNOPQRSTUVWXYZ'' ''abcdefghijklmnopqrstuvwxyz'')) c c"

definition is_cased :: "char \<Rightarrow> bool" where
  "is_cased c = (c \<in> set ''abcdefghijklmnopqrstuvwxyzABCDEFGHIJKLMNOPQRSTUVWXYZ'')"

fun title_from :: "bool \<Rightarrow> string \<Rightarrow> string" where
  "title_from previous_is_cased [] = []"
| "title_from previous_is_cased (c # cs) =
     (if previous_is_cased then to_lower c else to_upper c) # title_from (is_cased c) cs"

definition title :: "string \<Rightarrow> string" where
  "title s = title_from False s"

definition status_display :: "string \<Rightarrow> string" where
  "status_display st =
     dict_get (map_of [(''uploading'', ''Uploading''), (''queued'', ''Queued''),
                       (''processing'', ''Processing''), (''compressing'', ''Compressing''),
                       (''completed'', ''Completed''), (''failed'', ''Failed'')])
       st (title st)"

text \<open>
  One run of the body of \<open>while True\<close> per clock reading. The result is \<open>None\<close> when
  the script of the world ends before the loop does; otherwise the exception raised
  or the job returned, with the world as the function leaves it.
\<close>

function poll_loop ::
  "string \<Rightarrow> real \<Rightarrow> int \<Rightarrow> bool \<Rightarrow> world \<Rightarrow> ((exn + json_object) \<times> world) option" where
  "poll_loop api_url start_time tmo show_progress w =
     (case time_time w of
        None \<Rightarrow> None
      | Some (now, w1) \<Rightarrow>
          if now - start_time > real_of_int tmo
          then Some (Inl (Exn TimeoutError
                 (''Job timed out after '' @ str_int tmo @ '' seconds'')), w1)
          else
            (case requests_call (Get api_url) w1 of
               None \<Rightarrow> None
             | Some (Inl e, w2) \<Rightarrow> Some (Inl e, w2)
             | Some (Inr resp, w2) \<Rightarrow>
                 (case raise_for_status resp of
                    Some e \<Rightarrow> Some (Inl e, w2)
                  | None \<Rightarrow>
                      (case json resp of
                         NotJSON msg \<Rightarrow> Some (Inl (Exn Requests_JSONDecodeError msg), w2)
                       | NotDict ty \<Rightarrow>
                           Some (Inl (no_attribute ty ''get''), w2)
                       | Dict job \<Rightarrow>
                           (let st = get_or (status job) ''unknown'';
                                pr = get_or (progress job) 0;
                                cp = get_or (current_pass job) 0;
                                w3 = (if show_progress
                                      then progress_out (status_display st) pr cp CR w2
                                      else w2)
                            in if st = ''completed''
                               then Some (Inr job,
                                      if show_progress
                                      then progress_out ''Completed'' 100 0 LF w3 else w3)
                               else if st = ''failed''
                               then Some (Inl (Exn RuntimeError
                                      (''Conversion failed: ''
                                       @ get_or (error_message job) ''Unknown error'')),
                                      if show_progress then print '''' w3 else w3)
                               else poll_loop api_url start_time tmo show_progress
                                      (time_sleep (1 / 2) w3))))))"
  by pat_completeness auto
termination
  by (relation "measure (\<lambda>(api_url, start_time, tmo, show_progress, w). length (clock w))")
     (auto simp: time_time_def requests_call_def time_sleep_def progress_out_def
           split: list.splits if_splits)

declare poll_loop.simps [simp del]

text \<open>
  \<open>urllib.parse.urljoin\<close> is a parameter of every function that builds a URL: what is
  proved holds whatever it computes.
\<close>

definition wait_for_completion ::
  "(string \<Rightarrow> string \<Rightarrow> string) \<Rightarrow> string \<Rightarrow> string \<Rightarrow> bool \<Rightarrow> int \<Rightarrow> world
   \<Rightarrow> ((exn + json_object) \<times> world) option" where
  "wait_for_completion urljoin base_url job_id show_progress tmo w =
     (let api_url = urljoin base_url (''/api/jobs/'' @ job_id)
      in case time_time w of
           None \<Rightarrow> None
         | Some (start_time, w0) \<Rightarrow> poll_loop api_url start_time tmo show_progress w0)"

section \<open>Job submitter\<close>

text \<open>
  The \<open>files\<close> dictionary of \<open>upload_file\<close>: the primary file is opened, then the
  background image when its path is given, not empty and exists. An exception of
  \<open>open\<close> leaves the function at once.
\<close>

definition upload_open ::
  "string \<Rightarrow> string option \<Rightarrow> world \<Rightarrow> (exn + (string \<times> string \<times> string) list) \<times> world" where
  "upload_open file_path bg_image_path w =
     (case open_rb file_path w of
        (Inl e, w1) \<Rightarrow> (Inl e, w1)
      | (Inr h, w1) \<Rightarrow>
          (let files = [(''files'', basename file_path, h)]
           in case bg_image_path of
                None \<Rightarrow> (Inr files, w1)
              | Some bg \<Rightarrow>
                  if bg \<noteq> '''' \<and> exists bg w1
                  then (case open_rb bg w1 of
                          (Inl e, w2) \<Rightarrow> (Inl e, w2)
                        | (Inr hb, w2) \<Rightarrow>
                            (Inr (files @ [(''background'', basename bg, hb)]), w2))
                  else (Inr files, w1)))"

text \<open>The part of \<open>upload_file\<close> after the handles are closed (lines 187 to 200).\<close>

definition upload_result :: "response \<Rightarrow> exn + string" where
  "upload_result resp =
     (if \<not> ok resp
      then Inl (Exn RuntimeError (''Upload failed: '' @
             (case json resp of
                Dict d \<Rightarrow> get_or (error d) (body_text resp)
              | _ \<Rightarrow> body_text resp)))
      else
        (case json resp of
           NotJSON msg \<Rightarrow> Inl (Exn Requests_JSONDecodeError msg)
         | NotDict ty \<Rightarrow> Inl (no_attribute ty ''get'')
         | Dict result \<Rightarrow>
             (case get_or (jobs result) [] of
                [] \<Rightarrow> Inl (Exn RuntimeError ''No job created'')
              | j # _ \<Rightarrow>
                  (case ref_id j of
                     None \<Rightarrow> Inl (Exn KeyError (quoted ''id''))
                   | Some i \<Rightarrow> Inr i))))"

definition upload_file ::
  "(string \<Rightarrow> string \<Rightarrow> string) \<Rightarrow> string \<Rightarrow> string \<Rightarrow> options \<Rightarrow> string option \<Rightarrow> bool
   \<Rightarrow> world \<Rightarrow> ((exn + string) \<times> world) option" where
  "upload_file urljoin base_url file_path opts bg_image_path show_progress w =
     (let upload_url = urljoin base_url ''/api/upload''
      in case upload_open file_path bg_image_path w of
           (Inl e, w1) \<Rightarrow> Some (Inl e, w1)
         | (Inr files, w1) \<Rightarrow>
             (let w2 = (if show_progress
                        then print (''Uploading '' @ basename file_path @ ''...'') w1
                        else w1)
              in case requests_call (Post upload_url files opts) w2 of
                   None \<Rightarrow> None
                 | Some (Inl e, w3) \<Rightarrow> Some (Inl e, w3)
                 | Some (Inr resp, w3) \<Rightarrow>
                     Some (upload_result resp,
                           fold (\<lambda>(field, name, h). close h) files w3)))"

section \<open>Result retriever\<close>

fun write_chunks :: "string \<Rightarrow> bool \<Rightarrow> int \<Rightarrow> bytes list \<Rightarrow> int \<Rightarrow> world \<Rightarrow> int \<times> world" where
  "write_chunks f show_progress total_size [] downloaded w = (downloaded, w)"
| "write_chunks f show_progress total_size (chunk # rest) downloaded w =
     (let w1 = file_write f chunk w;
          downloaded' = downloaded + int (length chunk);
          w2 = (if show_progress \<and> total_size > 0
                then progress_out ''Downloading''
                       (py_int (truediv (downloaded' * 100) total_size)) 0 CR w1
                else w1)
      in write_chunks f show_progress total_size rest downloaded' w2)"

text \<open>
  \<open>download_file\<close> has no \<open>return\<close> statement: on success its value is \<open>None\<close>. The
  \<open>with\<close> block closes the file also when the stream raises.
\<close>

definition download_file ::
  "(string \<Rightarrow> string \<Rightarrow> string) \<Rightarrow> string \<Rightarrow> string \<Rightarrow> string \<Rightarrow> bool \<Rightarrow> world
   \<Rightarrow> ((exn + pyval) \<times> world) option" where
  "download_file urljoin base_url job_id output_path show_progress w =
     (let download_url = urljoin base_url (''/api/download/'' @ job_id);
          w1 = (if show_progress
                then print (''Downloading to '' @ output_path @ ''...'') w else w)
      in case requests_call (Get_stream download_url) w1 of
           None \<Rightarrow> None
         | Some (Inl e, w2) \<Rightarrow> Some (Inl e, w2)
         | Some (Inr resp, w2) \<Rightarrow>
             (case raise_for_status resp of
                Some e \<Rightarrow> Some (Inl e, w2)
              | None \<Rightarrow>
                  (let total_size = get_or (content_length resp) 0
                   in case open_wb output_path w2 of
                        (Inl e, w3) \<Rightarrow> Some (Inl e, w3)
                      | (Inr f, w3) \<Rightarrow>
                          (let (downloaded, w4) =
                                 write_chunks f show_progress total_size (chunks resp) 0 w3;
                               w5 = close f w4
                           in case stream_error resp of
                                Some e \<Rightarrow> Some (Inl e, w5)
                              | None \<Rightarrow>
                                  Some (Inr PyNone,
                                    if show_progress
                                    then print (''Saved: '' @ output_path @ '' (''
                                                @ format_bytes (getsize output_path w5) @ '')'')
                                           (progress_out ''Downloaded'' 100 0 LF w5)
                                    else w5)))))"

section \<open>The program\<close>

definition DEFAULT_BASE_URL :: string where
  "DEFAULT_BASE_URL = ''http://localhost:5051''"

text \<open>The namespace \<open>parse_args\<close> returns.\<close>

record args =
  input' :: string
  output' :: "string option"
  url_only :: bool
  base_url :: string
  width :: "int option"
  height :: "int option"
  rotate' :: int
  input_fps :: "real option"
  output_fps :: "real option"
  minterpolate_fps :: "real option"
  bg_color :: "string option"
  bg_image :: "string option"
  compress :: bool
  no_progress :: bool
  timeout :: int

definition ARROW :: string where
  "ARROW = [CHR 0xE2, CHR 0x86, CHR 0x92]"

text \<open>A string option is true in a condition when it is given and not empty.\<close>

definition truthy :: "string option \<Rightarrow> bool" where
  "truthy s = (case s of None \<Rightarrow> False | Some v \<Rightarrow> v \<noteq> '''')"

text \<open>\<open>isinstance(e, requests.exceptions.ConnectionError)\<close>\<close>

definition is_connection_error :: "exn \<Rightarrow> bool" where
  "is_connection_error e =
     (case e of
        Exn c _ \<Rightarrow> c = Requests_ConnectionError \<or> c = Requests_ConnectTimeout
      | SystemExit _ \<Rightarrow> False)"

definition build_options :: "args \<Rightarrow> options" where
  "build_options a =
     \<lparr> options.width = args.width a,
       options.height = args.height a,
       transpose' = rotate_to_transpose (rotate' a),
       options.input_fps = args.input_fps a,
       options.output_fps = args.output_fps a,
       options.minterpolate_fps = args.minterpolate_fps a,
       background_color = bg_color a,
       background_image_id = None,
       compress_output = compress a \<rparr>"

text \<open>
  The statistics printed last (lines 297 to 305). The ratio is a floating-point
  computation; its rendering \<open>f"{converted_size / original_size * 100:.1f}"\<close> is the
  parameter \<open>ratio_1f\<close>.
\<close>

definition print_stats :: "(int \<Rightarrow> int \<Rightarrow> string) \<Rightarrow> json_object \<Rightarrow> world \<Rightarrow> world" where
  "print_stats ratio_1f job w =
     (let original = get_or (original_size job) 0;
          converted = get_or (converted_size job) 0;
          w1 = (if original \<noteq> 0 \<and> converted \<noteq> 0
                then print (''Size: '' @ format_bytes original @ '' '' @ ARROW @ '' ''
                            @ format_bytes converted @ '' ('' @ ratio_1f converted original
                            @ ''%)'') w
                else w);
          dims = (case converted_width job of None \<Rightarrow> ''?'' | Some n \<Rightarrow> str_int n) @ ''x''
                 @ (case converted_height job of None \<Rightarrow> ''?'' | Some n \<Rightarrow> str_int n)
      in print (''Dimensions: '' @ dims) w1)"

text \<open>
  The body of the \<open>try\<close> statement of \<open>main\<close> after the upload has returned the job
  identifier (lines 276 to 305): wait, download or print the URL, statistics.
\<close>

definition after_upload ::
  "(string \<Rightarrow> string \<Rightarrow> string) \<Rightarrow> (int \<Rightarrow> int \<Rightarrow> string) \<Rightarrow> args \<Rightarrow> bool \<Rightarrow> string \<Rightarrow> world
   \<Rightarrow> ((exn + unit) \<times> world) option" where
  "after_upload urljoin ratio_1f a show_progress job_id w =
     (let w3 = (if show_progress then print (''Job created: '' @ job_id) w else w)
      in case wait_for_completion urljoin (base_url a) job_id show_progress (timeout a) w3 of
           None \<Rightarrow> None
         | Some (Inl e, w4) \<Rightarrow> Some (Inl e, w4)
         | Some (Inr job, w4) \<Rightarrow>
             (let download_url = urljoin (base_url a) (''/api/download/'' @ job_id)
              in case (if url_only a then Some (Inr PyNone, print download_url w4)
                       else if truthy (output' a)
                       then download_file urljoin (base_url a) job_id
                              (get_or (output' a) '''') show_progress w4
                       else download_file urljoin (base_url a) job_id
                              (splitext_root (basename (input' a)) @ ''-converted.gif'')
                              show_progress w4) of
                   None \<Rightarrow> None
                 | Some (Inl e, w5) \<Rightarrow> Some (Inl e, w5)
                 | Some (Inr _, w5) \<Rightarrow>
                     Some (Inr (),
                       if show_progress \<and> \<not> url_only a
                       then print_stats ratio_1f job w5 else w5)))"

text \<open>The body of the \<open>try\<close> statement of \<open>main\<close> (lines 258 to 305).\<close>

definition main_try ::
  "(string \<Rightarrow> string \<Rightarrow> string) \<Rightarrow> (int \<Rightarrow> int \<Rightarrow> string) \<Rightarrow> args \<Rightarrow> options \<Rightarrow> bool \<Rightarrow> world
   \<Rightarrow> ((exn + unit) \<times> world) option" where
  "main_try urljoin ratio_1f a opts show_progress w =
     (let health_url = urljoin (base_url a) ''/api/health''
      in case requests_call (Get_timeout health_url 5) w of
           None \<Rightarrow> None
         | Some (Inl e, w1) \<Rightarrow>
             if is_connection_error e
             then Some (Inl (SystemExit 1),
                    eprint ''Make sure the gif-converter service is running.''
                      (eprint (''Error: Cannot connect to server at '' @ base_url a) w1))
             else Some (Inl e, w1)
         | Some (Inr _, w1) \<Rightarrow>
             (case upload_file urljoin (base_url a) (input' a) opts (bg_image a)
                     show_progress w1 of
                None \<Rightarrow> None
              | Some (Inl e, w2) \<Rightarrow> Some (Inl e, w2)
              | Some (Inr job_id, w2) \<Rightarrow>
                  after_upload urljoin ratio_1f a show_progress job_id w2))"

text \<open>
  How the \<open>try\<close> statement ends (lines 307 to 312): the exit status of the process.
  \<open>SystemExit\<close> passes both \<open>except\<close> clauses; every other class but
  \<open>KeyboardInterrupt\<close> is an \<open>Exception\<close>. A normal return ends the process with
  status 0.
\<close>

definition main_exit :: "((exn + unit) \<times> world) option \<Rightarrow> (int \<times> world) option" where
  "main_exit r =
     (case r of
        None \<Rightarrow> None
      | Some (Inr _, w1) \<Rightarrow> Some (0, w1)
      | Some (Inl (SystemExit n), w1) \<Rightarrow> Some (n, w1)
      | Some (Inl (Exn KeyboardInterrupt _), w1) \<Rightarrow> Some (130, eprint (LF @ ''Aborted.'') w1)
      | Some (Inl (Exn _ msg), w1) \<Rightarrow> Some (1, eprint (''Error: '' @ msg) w1))"

text \<open>\<open>main\<close> after \<open>parse_args\<close>: the exit status and the world it leaves.\<close>

definition main ::
  "(string \<Rightarrow> string \<Rightarrow> string) \<Rightarrow> (int \<Rightarrow> int \<Rightarrow> string) \<Rightarrow> args \<Rightarrow> world
   \<Rightarrow> (int \<times> world) option" where
  "main urljoin ratio_1f a w =
     (if \<not> exists (input' a) w
      then Some (1, eprint (''Error: Input file not found: '' @ input' a) w)
      else if truthy (bg_image a) \<and> \<not> exists (get_or (bg_image a) '''') w
      then Some (1, eprint (''Error: Background image not found: ''
                            @ get_or (bg_image a) '''') w)
      else main_exit (main_try urljoin ratio_1f a (build_options a) (\<not> no_progress a) w))"

section \<open>Scripts of replies\<close>

text \<open>
  Notions used to state what the functions do on a scripted world. A reply carries a
  snapshot when the request returns a response that \<open>raise_for_status\<close> accepts and
  whose body is a JSON object; it is transient when the status of that snapshot is
  neither \<open>completed\<close> nor \<open>failed\<close>.
\<close>

definition snapshot :: "exn + response \<Rightarrow> json_object option" where
  "snapshot r =
     (case r of
        Inl _ \<Rightarrow> None
      | Inr resp \<Rightarrow>
          (case raise_for_status resp of
             Some _ \<Rightarrow> None
           | None \<Rightarrow> (case json resp of Dict job \<Rightarrow> Some job | _ \<Rightarrow> None)))"

definition job_status :: "json_object \<Rightarrow> string" where
  "job_status job = get_or (status job) ''unknown''"

definition transient :: "exn + response \<Rightarrow> bool" where
  "transient r =
     (case snapshot r of
        None \<Rightarrow> False
      | Some job \<Rightarrow> job_status job \<noteq> ''completed'' \<and> job_status job \<noteq> ''failed'')"

text \<open>
  The world after one iteration of the polling loop has fetched the snapshot \<open>job\<close>
  and reported it, and what a number of transient iterations leave unchanged.
\<close>

definition fetched :: "string \<Rightarrow> bool \<Rightarrow> json_object \<Rightarrow> world \<Rightarrow> world" where
  "fetched api_url show_progress job w =
     (let w2 = w\<lparr>clock := tl (clock w), replies := tl (replies w),
                 requested := requested w @ [Get api_url]\<rparr>
      in if show_progress
         then progress_out (status_display (job_status job)) (get_or (progress job) 0)
                (get_or (current_pass job) 0) CR w2
         else w2)"

definition polled :: "nat \<Rightarrow> string \<Rightarrow> bool \<Rightarrow> world \<Rightarrow> world \<Rightarrow> bool" where
  "polled n api_url sp w w' =
     (requested w' = requested w @ replicate n (Get api_url) \<and>
      slept w' = slept w @ replicate n (1 / 2) \<and>
      fs w' = fs w \<and> open_files w' = open_files w \<and> stderr w' = stderr w \<and>
      (if sp then length (stdout w') = length (stdout w) + n else stdout w' = stdout w))"



subsection \<open>Example inputs\<close>

text \<open>
  Concrete replies, arguments and worlds on which the theorems are run: a JSON object
  with no key, a response with an empty reason and URL, a job snapshot, the answer of
  the upload endpoint listing jobs, a streamed body, the empty world, the world holding
  the input file \<open>video.mp4\<close>, the arguments \<open>parse_args\<close> gives for that input alone,
  string concatenation in the place of \<open>urljoin\<close>, and the script of a complete run
  whose health check is answered with status 500.
\<close>

definition no_fields :: json_object where
  "no_fields = \<lparr>status = None, progress = None, current_pass = None, error_message = None,
     original_size = None, converted_size = None, converted_width = None,
     converted_height = None, error = None, jobs = None\<rparr>"

definition http_reply :: "int \<Rightarrow> string \<Rightarrow> parsed \<Rightarrow> response" where
  "http_reply code body js = \<lparr>status_code = code, reason = '''', url = '''',
     content_length = None, body_text = body, json = js, chunks = [], stream_error = None\<rparr>"

definition job_reply :: "string \<Rightarrow> int \<Rightarrow> exn + response" where
  "job_reply st pr =
     Inr (http_reply 200 '''' (Dict (no_fields\<lparr>status := Some st, progress := Some pr\<rparr>)))"

definition jobs_body :: "string list \<Rightarrow> parsed" where
  "jobs_body ids = Dict (no_fields\<lparr>jobs := Some (map (\<lambda>i. \<lparr>ref_id = Some i\<rparr>) ids)\<rparr>)"

definition stream_response :: "int option \<Rightarrow> bytes list \<Rightarrow> response" where
  "stream_response tot cs =
     (http_reply 200 '''' (NotJSON ''''))\<lparr>content_length := tot, chunks := cs\<rparr>"

definition stream_reply :: "int option \<Rightarrow> bytes list \<Rightarrow> exn + response" where
  "stream_reply tot cs = Inr (stream_response tot cs)"

definition world0 :: world where
  "world0 = \<lparr>clock = [], replies = [], requested = [], slept = [], fs = Map.empty,
     open_files = [], stdout = [], stderr = []\<rparr>"

definition video_world :: "(exn + response) list \<Rightarrow> world" where
  "video_world rs = world0\<lparr>fs := [''video.mp4'' \<mapsto> File ''GIF89a''], replies := rs\<rparr>"

definition default_args :: args where
  "default_args = \<lparr> input' = ''video.mp4'', output' = None, url_only = False,
     base_url = DEFAULT_BASE_URL, args.width = None, args.height = None, rotate' = 0,
     args.input_fps = None, args.output_fps = None, args.minterpolate_fps = None,
     bg_color = None, bg_image = None, compress = False, no_progress = False,
     timeout = 300 \<rparr>"

definition concat_url :: "string \<Rightarrow> string \<Rightarrow> string" where
  "concat_url base path = base @ path"

definition no_ratio :: "int \<Rightarrow> int \<Rightarrow> string" where
  "no_ratio converted original = ''''"

definition full_run :: world where
  "full_run = (video_world [Inr (http_reply 500 '''' (NotJSON '''')),
                        Inr (http_reply 200 '''' (jobs_body [''abc123''])),
                        job_reply ''completed'' 100,
                        stream_reply None [''GIF89a'']])\<lparr>clock := [0, 1]\<rparr>"

section \<open>Rotation mapping: properties\<close>

text \<open>
  Claim C6. \<open>rotate_to_transpose\<close> is a total function of its integer argument alone:
  it sends 0 to 0, 90 to 1, 180 to 3 and 270 to 2, and every other integer to 0.
\<close>

theorem rotate_to_transpose_table:
  "rotate_to_transpose 0 = 0 \<and> rotate_to_transpose 90 = 1 \<and>
   rotate_to_transpose 180 = 3 \<and> rotate_to_transpose 270 = 2 \<and>
   (\<forall>d. d \<notin> {0, 90, 180, 270} \<longrightarrow> rotate_to_transpose d = 0)"
  by (simp add: rotate_to_transpose_def dict_get_def)

theorem rotate_to_transpose_table_witness:
  "(45::int) \<notin> {0, 90, 180, 270} \<and> rotate_to_transpose 45 = 0 \<and>
   rotate_to_transpose (- 90) = 0 \<and> rotate_to_transpose 360 = 0"
  using rotate_to_transpose_table by simp

section \<open>Progress reporter: properties\<close>

lemma py_int_truediv_nonneg:
  assumes "0 \<le> a" and "0 < b"
  shows "py_int (truediv a b) = a div b"
proof -
  have "0 \<le> truediv a b"
    using assms by (simp add: truediv_def)
  then have "py_int (truediv a b) = \<lfloor>real_of_int a / real_of_int b\<rfloor>"
    by (simp add: py_int_def truediv_def)
  also have "\<dots> = a div b"
    by (rule floor_divide_of_int_eq)
  finally show ?thesis .
qed

lemma filled_cells_bounds:
  assumes "0 \<le> p" and "p \<le> 100"
  shows "0 \<le> 30 * p div 100" and "30 * p div 100 \<le> (30::int)"
  using assms by auto

text \<open>
  Claim C7. For a percent between 0 and 100 and a pass number that is not negative, the
  line written is: carriage return, the label, the suffix \<open>(Pass n/3)\<close> preceded by a
  space exactly when the pass number is positive, then a bar of \<open>k\<close> filled cells
  followed by \<open>30 - k\<close> empty cells with \<open>k = floor (30 * percent / 100)\<close>, the percent,
  ten spaces, and the line terminator passed by the caller.
\<close>

theorem print_progress_line:
  assumes "0 \<le> p" and "p \<le> 100" and "0 \<le> cp"
  shows "\<exists>k. int k = 30 * p div 100 \<and> k \<le> 30 \<and>
     print_progress label p cp end' out =
       out @ [CR @ label @ (if cp = 0 then '''' else '' (Pass '' @ str_int cp @ ''/3)'')
              @ '': ['' @ concat (replicate k FULL_BLOCK)
              @ concat (replicate (30 - k) LIGHT_SHADE) @ ''] ''
              @ str_int p @ ''%'' @ replicate 10 CHR '' '' @ end']"
proof -
  let ?k = "nat (30 * p div 100)"
  have lo: "0 \<le> 30 * p div 100" and hi: "30 * p div 100 \<le> 30"
    using assms(1,2) by (rule filled_cells_bounds)+
  have filled: "py_int (truediv (30 * p) 100) = 30 * p div 100"
    using assms(1) by (intro py_int_truediv_nonneg) auto
  have rest: "nat (30 - 30 * p div 100) = 30 - ?k"
    using lo hi by simp
  have pad: "str_mul '' '' 10 = replicate 10 CHR '' ''"
    by (simp add: str_mul_def eval_nat_numeral)
  have pass: "(if cp > 0 then '' (Pass '' @ str_int cp @ ''/3)'' else '''') =
              (if cp = 0 then '''' else '' (Pass '' @ str_int cp @ ''/3)'')"
    using assms(3) by simp
  have bar: "str_mul FULL_BLOCK (30 * p div 100) @ str_mul LIGHT_SHADE (30 - 30 * p div 100) =
             concat (replicate ?k FULL_BLOCK) @ concat (replicate (30 - ?k) LIGHT_SHADE)"
    unfolding str_mul_def rest ..
  have "print_progress label p cp end' out =
       out @ [CR @ label @ (if cp = 0 then '''' else '' (Pass '' @ str_int cp @ ''/3)'')
              @ '': ['' @ concat (replicate ?k FULL_BLOCK)
              @ concat (replicate (30 - ?k) LIGHT_SHADE) @ ''] ''
              @ str_int p @ ''%'' @ replicate 10 CHR '' '' @ end']"
    unfolding print_progress_def Let_def filled pad pass bar
    by (simp only: append_assoc)
  moreover have "int ?k = 30 * p div 100" and "?k \<le> 30"
    using lo hi by simp_all
  ultimately show ?thesis by blast
qed

lemma str_int_2: "str_int 2 = ''2''"
  by (simp add: str_int_def str_nat.simps)

lemma str_int_50: "str_int 50 = ''50''"
  by (simp add: str_int_def str_nat.simps)

lemma str_int_100: "str_int 100 = ''100''"
  by (simp add: str_int_def str_nat.simps)

theorem print_progress_line_witness:
  "(0::int) \<le> 50 \<and> (50::int) \<le> 100 \<and> (0::int) \<le> 2 \<and>
   print_progress ''Processing'' 50 2 CR [] =
     [CR @ ''Processing (Pass 2/3): ['' @ concat (replicate 15 FULL_BLOCK)
      @ concat (replicate 15 LIGHT_SHADE) @ ''] 50%'' @ replicate 10 CHR '' '' @ CR]"
proof -
  have "\<exists>k. int k = 30 * 50 div 100 \<and> k \<le> 30 \<and>
     print_progress ''Processing'' 50 2 CR [] =
       [] @ [CR @ ''Processing'' @ (if (2::int) = 0 then '''' else '' (Pass '' @ str_int 2 @ ''/3)'')
              @ '': ['' @ concat (replicate k FULL_BLOCK)
              @ concat (replicate (30 - k) LIGHT_SHADE) @ ''] ''
              @ str_int 50 @ ''%'' @ replicate 10 CHR '' '' @ CR]"
    by (rule print_progress_line) simp_all
  then obtain k where k: "int k = 30 * 50 div 100"
    and line: "print_progress ''Processing'' 50 2 CR [] =
       [] @ [CR @ ''Processing'' @ (if (2::int) = 0 then '''' else '' (Pass '' @ str_int 2 @ ''/3)'')
              @ '': ['' @ concat (replicate k FULL_BLOCK)
              @ concat (replicate (30 - k) LIGHT_SHADE) @ ''] ''
              @ str_int 50 @ ''%'' @ replicate 10 CHR '' '' @ CR]"
    by blast
  from k have "k = 15" by simp
  with line show ?thesis
    by (simp add: str_int_2 str_int_50)
qed

section \<open>Status poller: properties\<close>

lemma snapshotD:
  assumes "snapshot r = Some job"
  obtains resp where "r = Inr resp" and "raise_for_status resp = None" and "json resp = Dict job"
  using assms by (auto simp: snapshot_def split: sum.splits option.splits parsed.splits)

lemma poll_loop_fetch:
  assumes "clock w = now # ts" and "\<not> real_of_int tmo < now - t0"
    and "replies w = r # rs" and "snapshot r = Some job"
  shows "poll_loop api_url t0 tmo sp w =
     (let w3 = fetched api_url sp job w
      in if job_status job = ''completed''
         then Some (Inr job, if sp then progress_out ''Completed'' 100 0 LF w3 else w3)
         else if job_status job = ''failed''
         then Some (Inl (Exn RuntimeError
                (''Conversion failed: '' @ get_or (error_message job) ''Unknown error'')),
                if sp then print '''' w3 else w3)
         else poll_loop api_url t0 tmo sp (time_sleep (1 / 2) w3))"
proof -
  from assms(4) obtain resp where r: "r = Inr resp" "raise_for_status resp = None"
    "json resp = Dict job" by (rule snapshotD)
  show ?thesis
    by (subst poll_loop.simps)
       (simp add: time_time_def requests_call_def assms(1-3) r fetched_def job_status_def Let_def)
qed

lemma poll_loop_late:
  assumes "clock w = now # ts" and "real_of_int tmo < now - t0"
  shows "poll_loop api_url t0 tmo sp w =
     Some (Inl (Exn TimeoutError (''Job timed out after '' @ str_int tmo @ '' seconds'')),
           w\<lparr>clock := ts\<rparr>)"
  by (subst poll_loop.simps) (simp add: time_time_def assms)

lemma fetched_fields:
  "clock (fetched api_url sp job w) = tl (clock w)"
  "replies (fetched api_url sp job w) = tl (replies w)"
  "requested (fetched api_url sp job w) = requested w @ [Get api_url]"
  "slept (fetched api_url sp job w) = slept w"
  "fs (fetched api_url sp job w) = fs w"
  "open_files (fetched api_url sp job w) = open_files w"
  "stderr (fetched api_url sp job w) = stderr w"
  "\<not> sp \<Longrightarrow> stdout (fetched api_url sp job w) = stdout w"
  by (simp_all add: fetched_def progress_out_def Let_def)

lemma polled_step:
  "polled (Suc 0) api_url sp w (time_sleep (1 / 2) (fetched api_url sp job w))"
  by (simp add: polled_def time_sleep_def fetched_def progress_out_def print_progress_def Let_def)

lemma polled_trans:
  "polled m api_url sp w w1 \<Longrightarrow> polled n api_url sp w1 w2 \<Longrightarrow> polled (m + n) api_url sp w w2"
  by (auto simp: polled_def replicate_add split: if_splits)

lemma poll_loop_transients:
  assumes "length ts = length rs"
    and "\<forall>t \<in> set ts. \<not> real_of_int tmo < t - t0"
    and "\<forall>r \<in> set rs. transient r"
    and "clock w = ts @ cl" and "replies w = rs @ rp"
  shows "\<exists>w'. poll_loop api_url t0 tmo sp w = poll_loop api_url t0 tmo sp w' \<and>
               clock w' = cl \<and> replies w' = rp \<and> polled (length rs) api_url sp w w'"
  using assms
proof (induction ts rs arbitrary: w rule: list_induct2)
  case Nil
  then show ?case by (auto simp: polled_def intro!: exI [of _ w])
next
  case (Cons t ts r rs)
  from Cons.prems(2) obtain job where job: "snapshot r = Some job"
    and st: "job_status job \<noteq> ''completed''" "job_status job \<noteq> ''failed''"
    by (auto simp: transient_def split: option.splits)
  let ?w1 = "time_sleep (1 / 2) (fetched api_url sp job w)"
  have step: "poll_loop api_url t0 tmo sp w = poll_loop api_url t0 tmo sp ?w1"
    using Cons.prems job st
    by (subst poll_loop_fetch [where job = job and now = t and ts = "ts @ cl" and r = r
          and rs = "rs @ rp"]) simp_all
  have c1: "clock ?w1 = ts @ cl" and r1: "replies ?w1 = rs @ rp"
    using Cons.prems by (simp_all add: time_sleep_def fetched_fields)
  from Cons.IH [OF _ _ c1 r1] Cons.prems obtain w' where
    w': "poll_loop api_url t0 tmo sp ?w1 = poll_loop api_url t0 tmo sp w'"
        "clock w' = cl" "replies w' = rp" "polled (length rs) api_url sp ?w1 w'"
    by auto
  from polled_trans [OF polled_step w'(4)]
  have "polled (length (r # rs)) api_url sp w w'" by simp
  with step w' show ?case by auto
qed

lemma print_progress_full:
  "print_progress label 100 0 e out =
     out @ [CR @ label @ '': ['' @ concat (replicate 30 FULL_BLOCK) @ ''] 100%''
            @ replicate 10 CHR '' '' @ e]"
proof -
  have "py_int (truediv (30 * 100) 100) = 30 * 100 div 100"
    by (rule py_int_truediv_nonneg) simp_all
  then have filled: "py_int (truediv (30 * 100) 100) = 30" by simp
  show ?thesis
    unfolding print_progress_def Let_def filled
    by (simp add: str_mul_def str_int_100 eval_nat_numeral)
qed

lemma str_int_1: "str_int 1 = ''1''"
  by (simp add: str_int_def str_nat.simps)

lemma transient_job_reply:
  "st \<noteq> ''completed'' \<Longrightarrow> st \<noteq> ''failed'' \<Longrightarrow> transient (job_reply st pr)"
  by (simp add: transient_def snapshot_def job_reply_def http_reply_def raise_for_status_def
      job_status_def get_or_def no_fields_def)

text \<open>
  Claim C1. The script gives the reading \<open>t0\<close> taken before the loop, then readings
  \<open>ts\<close> whose elapsed time is at most the timeout, each answered by a transient
  snapshot, then a reading \<open>late\<close> beyond the timeout. \<open>wait_for_completion\<close> raises
  \<open>TimeoutError\<close> with the text "Job timed out after (timeout) seconds". It has read
  the clock once at the head of every iteration and fetched only after a reading within
  the timeout: one request for each reading of \<open>ts\<close>, none after \<open>late\<close>.
\<close>

theorem wait_for_completion_times_out:
  assumes "clock w = t0 # ts @ late # later"
    and "\<forall>t \<in> set ts. t - t0 \<le> real_of_int tmo"
    and "real_of_int tmo < late - t0"
    and "replies w = rs @ rest" and "length rs = length ts"
    and "\<forall>r \<in> set rs. transient r"
  shows "\<exists>w'. wait_for_completion urljoin base job_id sp tmo w =
               Some (Inl (Exn TimeoutError
                 (''Job timed out after '' @ str_int tmo @ '' seconds'')), w') \<and>
             clock w' = later \<and> replies w' = rest \<and>
             requested w' = requested w
               @ replicate (length ts) (Get (urljoin base (''/api/jobs/'' @ job_id)))"
proof -
  let ?u = "urljoin base (''/api/jobs/'' @ job_id)"
  let ?w0 = "w\<lparr>clock := ts @ late # later\<rparr>"
  have start: "wait_for_completion urljoin base job_id sp tmo w = poll_loop ?u t0 tmo sp ?w0"
    by (simp add: wait_for_completion_def time_time_def assms(1))
  have "\<forall>t \<in> set ts. \<not> real_of_int tmo < t - t0"
    using assms(2) by (auto simp: not_less)
  from poll_loop_transients [OF assms(5) [symmetric] this assms(6), of ?w0 "late # later" rest ?u sp]
  obtain w1 where w1: "poll_loop ?u t0 tmo sp ?w0 = poll_loop ?u t0 tmo sp w1"
    "clock w1 = late # later" "replies w1 = rest" "polled (length rs) ?u sp ?w0 w1"
    using assms(4) by auto
  have "poll_loop ?u t0 tmo sp w1 =
     Some (Inl (Exn TimeoutError (''Job timed out after '' @ str_int tmo @ '' seconds'')),
           w1\<lparr>clock := later\<rparr>)"
    using w1(2) assms(3) by (rule poll_loop_late)
  with start w1 assms(5) show ?thesis
    by (auto simp: polled_def)
qed

theorem wait_for_completion_times_out_witness:
  "\<exists>w'. wait_for_completion concat_url ''http://localhost:5051'' ''abc123'' True 1
          (world0\<lparr>clock := [0, 1 / 5, 7 / 10, 6 / 5],
                  replies := [job_reply ''queued'' 0, job_reply ''processing'' 50]\<rparr>) =
          Some (Inl (Exn TimeoutError ''Job timed out after 1 seconds''), w') \<and>
        clock w' = [] \<and> replies w' = [] \<and>
        requested w' = [Get ''http://localhost:5051/api/jobs/abc123'',
                        Get ''http://localhost:5051/api/jobs/abc123'']"
proof -
  let ?w = "world0\<lparr>clock := [0, 1 / 5, 7 / 10, 6 / 5],
                   replies := [job_reply ''queued'' 0, job_reply ''processing'' 50]\<rparr>"
  have "\<exists>w'. wait_for_completion concat_url ''http://localhost:5051'' ''abc123'' True 1 ?w =
               Some (Inl (Exn TimeoutError
                 (''Job timed out after '' @ str_int 1 @ '' seconds'')), w') \<and>
             clock w' = [] \<and> replies w' = [] \<and>
             requested w' = requested ?w
               @ replicate (length [1 / 5, 7 / 10 :: real])
                   (Get (concat_url ''http://localhost:5051'' (''/api/jobs/'' @ ''abc123'')))"
    by (rule wait_for_completion_times_out
          [where ?t0.0 = 0 and late = "6 / 5"
             and rs = "[job_reply ''queued'' 0, job_reply ''processing'' 50]"])
       (simp_all add: transient_job_reply)
  then show ?thesis
    by (simp add: str_int_1 concat_url_def world0_def eval_nat_numeral)
qed

text \<open>
  Claim C3. When the transient snapshots are followed, within the timeout, by a snapshot
  whose status is \<open>completed\<close>, \<open>wait_for_completion\<close> returns that snapshot as it
  was received. With progress reporting the last line written is the full bar at 100%
  ended by a newline; without it nothing is written.
\<close>

theorem wait_for_completion_completed:
  assumes "clock w = t0 # ts @ t # later"
    and "\<forall>x \<in> set (ts @ [t]). x - t0 \<le> real_of_int tmo"
    and "replies w = rs @ r # rest" and "length rs = length ts"
    and "\<forall>x \<in> set rs. transient x"
    and "snapshot r = Some job" and "status job = Some ''completed''"
  shows "\<exists>w'. wait_for_completion urljoin base job_id sp tmo w = Some (Inr job, w') \<and>
             clock w' = later \<and> replies w' = rest \<and>
             (if sp
              then \<exists>out. stdout w' =
                     out @ [CR @ ''Completed: ['' @ concat (replicate 30 FULL_BLOCK)
                            @ ''] 100%'' @ replicate 10 CHR '' '' @ LF]
              else stdout w' = stdout w)"
proof -
  let ?u = "urljoin base (''/api/jobs/'' @ job_id)"
  let ?w0 = "w\<lparr>clock := ts @ t # later\<rparr>"
  have start: "wait_for_completion urljoin base job_id sp tmo w = poll_loop ?u t0 tmo sp ?w0"
    by (simp add: wait_for_completion_def time_time_def assms(1))
  have early: "\<forall>x \<in> set ts. \<not> real_of_int tmo < x - t0" and t: "\<not> real_of_int tmo < t - t0"
    using assms(2) by (auto simp: not_less)
  from poll_loop_transients [OF assms(4) [symmetric] early assms(5), of ?w0 "t # later" "r # rest" ?u sp]
  obtain w1 where w1: "poll_loop ?u t0 tmo sp ?w0 = poll_loop ?u t0 tmo sp w1"
    "clock w1 = t # later" "replies w1 = r # rest" "polled (length rs) ?u sp ?w0 w1"
    using assms(3) by auto
  let ?w3 = "fetched ?u sp job w1"
  let ?w' = "if sp then progress_out ''Completed'' 100 0 LF ?w3 else ?w3"
  have st: "job_status job = ''completed''"
    using assms(7) by (simp add: job_status_def get_or_def)
  have last: "poll_loop ?u t0 tmo sp w1 = Some (Inr job, ?w')"
    using poll_loop_fetch [OF w1(2) t w1(3) assms(6), of ?u sp] st by (simp add: Let_def)
  have "clock ?w' = later" and "replies ?w' = rest"
    using w1(2,3) by (simp_all add: fetched_fields progress_out_def)
  moreover have "if sp
       then \<exists>out. stdout ?w' =
              out @ [CR @ ''Completed: ['' @ concat (replicate 30 FULL_BLOCK)
                     @ ''] 100%'' @ replicate 10 CHR '' '' @ LF]
       else stdout ?w' = stdout w"
    using w1(4) by (auto simp: progress_out_def print_progress_full fetched_fields polled_def)
  ultimately show ?thesis
    using start w1(1) last by (intro exI [of _ ?w']) simp
qed

theorem wait_for_completion_completed_witness:
  "\<exists>w'. wait_for_completion concat_url ''http://localhost:5051'' ''abc123'' True 300
          (world0\<lparr>clock := [0, 1 / 2, 1, 3 / 2],
                  replies := [job_reply ''queued'' 0, job_reply ''processing'' 50,
                              job_reply ''completed'' 100]\<rparr>) =
          Some (Inr (no_fields\<lparr>status := Some ''completed'', progress := Some 100\<rparr>), w') \<and>
        clock w' = [] \<and> replies w' = [] \<and>
        (\<exists>out. stdout w' =
           out @ [CR @ ''Completed: ['' @ concat (replicate 30 FULL_BLOCK)
                  @ ''] 100%'' @ replicate 10 CHR '' '' @ LF])"
proof -
  let ?w = "world0\<lparr>clock := [0, 1 / 2, 1, 3 / 2],
                  replies := [job_reply ''queued'' 0, job_reply ''processing'' 50,
                              job_reply ''completed'' 100]\<rparr>"
  let ?job = "no_fields\<lparr>status := Some ''completed'', progress := Some 100\<rparr>"
  have "\<exists>w'. wait_for_completion concat_url ''http://localhost:5051'' ''abc123'' True 300 ?w =
               Some (Inr ?job, w') \<and> clock w' = [] \<and> replies w' = [] \<and>
             (if True
              then \<exists>out. stdout w' =
                     out @ [CR @ ''Completed: ['' @ concat (replicate 30 FULL_BLOCK)
                            @ ''] 100%'' @ replicate 10 CHR '' '' @ LF]
              else stdout w' = stdout ?w)"
    by (rule wait_for_completion_completed
          [where ?t0.0 = 0 and ts = "[1 / 2, 1]" and t = "3 / 2"
             and rs = "[job_reply ''queued'' 0, job_reply ''processing'' 50]"
             and r = "job_reply ''completed'' 100"])
       (simp_all add: transient_job_reply, simp_all add: snapshot_def job_reply_def
          http_reply_def raise_for_status_def no_fields_def)
  then show ?thesis by simp
qed

text \<open>
  Claim C2. When the transient snapshots are followed, within the timeout, by a snapshot
  whose status is \<open>failed\<close>, \<open>wait_for_completion\<close> raises the error of a failed
  conversion, a \<open>RuntimeError\<close> whose text is "Conversion failed: " followed by the
  \<open>error_message\<close> of the snapshot, or by "Unknown error" when the snapshot has none.
  With progress reporting the last thing written is a line break; without it nothing is
  written.
\<close>

theorem wait_for_completion_failed:
  assumes "clock w = t0 # ts @ t # later"
    and "\<forall>x \<in> set (ts @ [t]). x - t0 \<le> real_of_int tmo"
    and "replies w = rs @ r # rest" and "length rs = length ts"
    and "\<forall>x \<in> set rs. transient x"
    and "snapshot r = Some job" and "status job = Some ''failed''"
  shows "\<exists>w'. wait_for_completion urljoin base job_id sp tmo w =
               Some (Inl (Exn RuntimeError (''Conversion failed: '' @
                 (case error_message job of None \<Rightarrow> ''Unknown error'' | Some m \<Rightarrow> m))), w') \<and>
             clock w' = later \<and> replies w' = rest \<and>
             (if sp then \<exists>out. stdout w' = out @ [LF] else stdout w' = stdout w)"
proof -
  let ?u = "urljoin base (''/api/jobs/'' @ job_id)"
  let ?w0 = "w\<lparr>clock := ts @ t # later\<rparr>"
  have start: "wait_for_completion urljoin base job_id sp tmo w = poll_loop ?u t0 tmo sp ?w0"
    by (simp add: wait_for_completion_def time_time_def assms(1))
  have early: "\<forall>x \<in> set ts. \<not> real_of_int tmo < x - t0" and t: "\<not> real_of_int tmo < t - t0"
    using assms(2) by (auto simp: not_less)
  from poll_loop_transients [OF assms(4) [symmetric] early assms(5), of ?w0 "t # later" "r # rest" ?u sp]
  obtain w1 where w1: "poll_loop ?u t0 tmo sp ?w0 = poll_loop ?u t0 tmo sp w1"
    "clock w1 = t # later" "replies w1 = r # rest" "polled (length rs) ?u sp ?w0 w1"
    using assms(3) by auto
  let ?w3 = "fetched ?u sp job w1"
  let ?w' = "if sp then print '''' ?w3 else ?w3"
  have st: "job_status job = ''failed''"
    using assms(7) by (simp add: job_status_def get_or_def)
  have last: "poll_loop ?u t0 tmo sp w1 =
      Some (Inl (Exn RuntimeError (''Conversion failed: '' @
              (case error_message job of None \<Rightarrow> ''Unknown error'' | Some m \<Rightarrow> m))), ?w')"
    using poll_loop_fetch [OF w1(2) t w1(3) assms(6), of ?u sp] st
    by (simp add: Let_def get_or_def)
  have "clock ?w' = later" and "replies ?w' = rest"
    using w1(2,3) by (simp_all add: fetched_fields print_def)
  moreover have "if sp then \<exists>out. stdout ?w' = out @ [LF] else stdout ?w' = stdout w"
    using w1(4) by (auto simp: print_def fetched_fields polled_def)
  ultimately show ?thesis
    using start w1(1) last by (intro exI [of _ ?w']) simp
qed

theorem wait_for_completion_failed_witness:
  "\<exists>w'. wait_for_completion concat_url ''http://localhost:5051'' ''abc123'' True 300
          (world0\<lparr>clock := [0, 1 / 2, 1],
                  replies := [job_reply ''queued'' 0,
                    Inr (http_reply 200 '''' (Dict (no_fields\<lparr>status := Some ''failed'',
                           error_message := Some ''bad codec''\<rparr>)))]\<rparr>) =
          Some (Inl (Exn RuntimeError ''Conversion failed: bad codec''), w') \<and>
        clock w' = [] \<and> replies w' = [] \<and> (\<exists>out. stdout w' = out @ [LF])"
proof -
  let ?job = "no_fields\<lparr>status := Some ''failed'', error_message := Some ''bad codec''\<rparr>"
  let ?w = "world0\<lparr>clock := [0, 1 / 2, 1],
                  replies := [job_reply ''queued'' 0, Inr (http_reply 200 '''' (Dict ?job))]\<rparr>"
  have "\<exists>w'. wait_for_completion concat_url ''http://localhost:5051'' ''abc123'' True 300 ?w =
               Some (Inl (Exn RuntimeError (''Conversion failed: '' @
                 (case error_message ?job of None \<Rightarrow> ''Unknown error'' | Some m \<Rightarrow> m))), w') \<and>
             clock w' = [] \<and> replies w' = [] \<and>
             (if True then \<exists>out. stdout w' = out @ [LF] else stdout w' = stdout ?w)"
    by (rule wait_for_completion_failed
          [where ?t0.0 = 0 and ts = "[1 / 2]" and t = 1
             and rs = "[job_reply ''queued'' 0]"
             and r = "Inr (http_reply 200 '''' (Dict ?job))"])
       (simp_all add: transient_job_reply, simp_all add: snapshot_def
          http_reply_def raise_for_status_def no_fields_def)
  then show ?thesis by simp
qed

section \<open>Job submitter: properties\<close>

lemma basename_video: "basename ''video.mp4'' = ''video.mp4''"
  by (simp add: basename_def)

text \<open>
  Claim C4. The claim asks for the submission error on every response that is not 2xx,
  and the comment on line 187 says the same ("Accept any 2xx status code"). The test
  in the code is \<open>response.ok\<close>, which holds for every status outside 400 to 599
  (\<open>ok_iff\<close>). A response with status 300 that lists a job is therefore accepted and
  the identifier of its first job returned. For an \<open>ok\<close> response and for a status from
  400 to 599 the function does what the claim says (\<open>upload_result_RuntimeError_iff\<close>).
\<close>

theorem upload_file_accepts_300:
  "upload_file concat_url DEFAULT_BASE_URL ''video.mp4'' (build_options default_args) None False
     (video_world [Inr (http_reply 300 '''' (jobs_body [''abc123'']))]) =
   Some (Inr ''abc123'',
         video_world []\<lparr>requested :=
           [Post ''http://localhost:5051/api/upload'' [(''files'', ''video.mp4'', ''video.mp4'')]
              (build_options default_args)]\<rparr>)"
  by (simp add: upload_file_def upload_open_def open_rb_def video_world_def world0_def
      requests_call_def upload_result_def ok_def raise_for_status_def http_reply_def
      jobs_body_def no_fields_def get_or_def close_def basename_video concat_url_def
      DEFAULT_BASE_URL_def)

text \<open>
  Claim C5. The handles are closed by the loop that follows the call of
  \<open>requests.post\<close> (lines 184 and 185), which is not reached when the call raises:
  the exception leaves \<open>upload_file\<close> with the handle of the primary file open. On
  every path on which the call returns a response the handles opened are closed
  (\<open>upload_file_on_response\<close>).
\<close>

theorem upload_file_leaks_on_post_error:
  "upload_file concat_url DEFAULT_BASE_URL ''video.mp4'' (build_options default_args) None False
     (video_world [Inl (Exn Requests_ConnectionError ''Connection refused'')]) =
   Some (Inl (Exn Requests_ConnectionError ''Connection refused''),
         video_world []\<lparr>open_files := [''video.mp4''], requested :=
           [Post ''http://localhost:5051/api/upload'' [(''files'', ''video.mp4'', ''video.mp4'')]
              (build_options default_args)]\<rparr>)"
  by (simp add: upload_file_def upload_open_def open_rb_def video_world_def world0_def
      requests_call_def basename_video concat_url_def DEFAULT_BASE_URL_def)

lemma ok_iff: "ok resp \<longleftrightarrow> \<not> (400 \<le> status_code resp \<and> status_code resp < 600)"
  by (auto simp: ok_def raise_for_status_def)

text \<open>
  The outcome is the \<open>RuntimeError\<close> of a failed submission exactly when the response
  is not \<open>ok\<close>, or is \<open>ok\<close> and its JSON object lists no job.
\<close>

theorem upload_result_RuntimeError_iff:
  "(\<exists>m. upload_result resp = Inl (Exn RuntimeError m)) \<longleftrightarrow>
     \<not> ok resp \<or> (\<exists>d. json resp = Dict d \<and> get_or (jobs d) [] = [])"
  by (auto simp: upload_result_def no_attribute_def split: parsed.splits list.splits option.splits)

lemma upload_open_replies:
  "upload_open file_path bg w = (res, w1) \<Longrightarrow>
     replies w1 = replies w \<and> requested w1 = requested w \<and> stdout w1 = stdout w \<and>
     stderr w1 = stderr w \<and> fs w1 = fs w \<and> clock w1 = clock w \<and> slept w1 = slept w"
  by (auto simp: upload_open_def open_rb_def Let_def split: option.splits node.splits if_splits prod.splits sum.splits)

lemma upload_open_handles:
  "upload_open file_path bg w = (Inr files, w1) \<Longrightarrow>
     open_files w1 = open_files w @ map (\<lambda>(field, name, h). h) files"
  by (auto simp: upload_open_def open_rb_def Let_def split: option.splits node.splits if_splits prod.splits sum.splits)

lemma fold_close_all:
  "mset (open_files (fold (\<lambda>(field, name, h). close h) files w)) =
     mset (open_files w) - mset (map (\<lambda>(field, name, h). h) files)"
proof (induction files arbitrary: w)
  case Nil
  then show ?case by simp
next
  case (Cons f files)
  obtain field name h where f: "f = (field, name, h)" by (cases f)
  have "mset (open_files (close h w)) = mset (open_files w) - {#h#}"
    by (simp add: close_def)
  then show ?case
    by (simp add: Cons.IH f diff_diff_add)
qed

lemma fold_close_fields:
  "replies (fold (\<lambda>(field, name, h). close h) files w) = replies w"
  "requested (fold (\<lambda>(field, name, h). close h) files w) = requested w"
  by (induction files arbitrary: w; simp add: close_def split: prod.splits)+

text \<open>
  When \<open>requests.post\<close> returns a response, \<open>upload_file\<close> ends with the outcome
  \<open>upload_result\<close> gives for it, having made that one request and closed every handle
  it opened.
\<close>

theorem upload_file_on_response:
  assumes "upload_open file_path bg w = (Inr files, w1)"
    and "replies w = Inr resp # rs"
  shows "\<exists>w'. upload_file urljoin base file_path opts bg sp w = Some (upload_result resp, w') \<and>
               mset (open_files w') = mset (open_files w) \<and>
               replies w' = rs \<and>
               requested w' = requested w @ [Post (urljoin base ''/api/upload'') files opts]"
proof -
  have r1: "replies w1 = Inr resp # rs" and q1: "requested w1 = requested w"
    using upload_open_replies [OF assms(1)] assms(2) by simp_all
  have h1: "open_files w1 = open_files w @ map (\<lambda>(field, name, h). h) files"
    using assms(1) by (rule upload_open_handles)
  define w2 where "w2 = (if sp then print (''Uploading '' @ basename file_path @ ''...'') w1 else w1)"
  define w3 where "w3 = w2\<lparr>replies := rs,
      requested := requested w2 @ [Post (urljoin base ''/api/upload'') files opts]\<rparr>"
  define w' where "w' = fold (\<lambda>(field, name, h). close h) files w3"
  have call: "requests_call (Post (urljoin base ''/api/upload'') files opts) w2 = Some (Inr resp, w3)"
    using r1 by (simp add: requests_call_def w2_def w3_def print_def)
  have run: "upload_file urljoin base file_path opts bg sp w = Some (upload_result resp, w')"
    using call unfolding upload_file_def Let_def assms(1) w2_def w'_def
    by (cases sp) simp_all
  have "open_files w3 = open_files w1" and "requested w3 = requested w @ [Post (urljoin base ''/api/upload'') files opts]"
    and "replies w3 = rs"
    using q1 by (simp_all add: w3_def w2_def print_def)
  then have "mset (open_files w') = mset (open_files w)"
    and "requested w' = requested w @ [Post (urljoin base ''/api/upload'') files opts]"
    and "replies w' = rs"
    unfolding w'_def by (simp_all add: fold_close_all fold_close_fields h1)
  with run show ?thesis by blast
qed

theorem upload_file_on_response_witness:
  "\<exists>w'. upload_file concat_url DEFAULT_BASE_URL ''video.mp4'' (build_options default_args) None False
          (video_world [Inr (http_reply 404 ''{\"error\":\"bad file\"}''
             (Dict (no_fields\<lparr>error := Some ''bad file''\<rparr>)))]) =
          Some (Inl (Exn RuntimeError ''Upload failed: bad file''), w') \<and>
        open_files w' = [] \<and> replies w' = []"
proof -
  let ?resp = "http_reply 404 ''{\"error\":\"bad file\"}'' (Dict (no_fields\<lparr>error := Some ''bad file''\<rparr>))"
  let ?w = "video_world [Inr ?resp]"
  have opened: "upload_open ''video.mp4'' None ?w =
      (Inr [(''files'', ''video.mp4'', ''video.mp4'')], ?w\<lparr>open_files := [''video.mp4'']\<rparr>)"
    by (simp add: upload_open_def open_rb_def video_world_def world0_def basename_video)
  have res: "upload_result ?resp = Inl (Exn RuntimeError ''Upload failed: bad file'')"
    by (simp add: upload_result_def ok_def raise_for_status_def http_reply_def no_fields_def
        get_or_def)
  from upload_file_on_response [OF opened, of ?resp "[]" concat_url DEFAULT_BASE_URL
      "build_options default_args" False]
  show ?thesis
    unfolding res by (auto simp: video_world_def world0_def)
qed

theorem upload_result_RuntimeError_iff_witness:
  "upload_result (http_reply 200 ''{\"jobs\":[]}'' (jobs_body [])) =
     Inl (Exn RuntimeError ''No job created'') \<and>
   ok (http_reply 200 ''{\"jobs\":[]}'' (jobs_body []))"
proof -
  let ?resp = "http_reply 200 ''{\"jobs\":[]}'' (jobs_body [])"
  have "\<exists>m. upload_result ?resp = Inl (Exn RuntimeError m)"
    unfolding upload_result_RuntimeError_iff
    by (simp add: http_reply_def jobs_body_def no_fields_def get_or_def)
  then show ?thesis
    by (simp add: upload_result_def ok_def raise_for_status_def http_reply_def jobs_body_def
        no_fields_def get_or_def)
qed

section \<open>Result retriever: properties\<close>























section \<open>The program: properties\<close>

lemma splitext_video: "splitext_root ''video.mp4'' = ''video''"
  by (simp add: splitext_root_def basename_def Let_def)

lemma main_checked:
  assumes "exists (input' a) w"
    and "\<not> (truthy (bg_image a) \<and> \<not> exists (get_or (bg_image a) '''') w)"
  shows "main urljoin ratio a w =
           main_exit (main_try urljoin ratio a (build_options a) (\<not> no_progress a) w)"
  using assms by (auto simp: main_def)

text \<open>
  Claim C10. Once the input has been validated, \<open>main\<close> issues the health request.
  When the request raises a connection error, the program writes the two lines of the
  "cannot connect" message to the error stream and exits with status 1; no other
  request has been made and no file opened. When the request returns a response, the
  response is dropped whatever its status, and the program goes on with \<open>upload_file\<close>
  in the world where only the health request has been consumed.
\<close>

theorem main_health_check:
  assumes "exists (input' a) w"
    and "\<not> (truthy (bg_image a) \<and> \<not> exists (get_or (bg_image a) '''') w)"
    and "replies w = r # rs"
  shows "(\<forall>e. r = Inl e \<and> is_connection_error e \<longrightarrow>
            main urljoin ratio a w =
              Some (1, w\<lparr>replies := rs,
                requested := requested w @ [Get_timeout (urljoin (base_url a) ''/api/health'') 5],
                stderr := stderr w @
                  [''Error: Cannot connect to server at '' @ base_url a @ LF,
                   ''Make sure the gif-converter service is running.'' @ LF]\<rparr>)) \<and>
         (\<forall>resp. r = Inr resp \<longrightarrow>
            main urljoin ratio a w =
              main_exit
                (case upload_file urljoin (base_url a) (input' a) (build_options a) (bg_image a)
                        (\<not> no_progress a)
                        (w\<lparr>replies := rs,
                           requested := requested w
                             @ [Get_timeout (urljoin (base_url a) ''/api/health'') 5]\<rparr>) of
                   None \<Rightarrow> None
                 | Some (Inl e, w2) \<Rightarrow> Some (Inl e, w2)
                 | Some (Inr job_id, w2) \<Rightarrow>
                     after_upload urljoin ratio a (\<not> no_progress a) job_id w2))"
proof -
  note m = main_checked [OF assms(1,2), of urljoin ratio]
  show ?thesis
    unfolding m
    by (simp add: main_try_def requests_call_def assms(3) main_exit_def eprint_def Let_def)
qed

lemma full_run_after_upload:
  "main_exit
    (case upload_file concat_url (base_url (default_args\<lparr>no_progress := True\<rparr>))
            (input' (default_args\<lparr>no_progress := True\<rparr>))
            (build_options (default_args\<lparr>no_progress := True\<rparr>))
            (bg_image (default_args\<lparr>no_progress := True\<rparr>))
            (\<not> no_progress (default_args\<lparr>no_progress := True\<rparr>))
            (full_run\<lparr>replies := tl (replies full_run),
               requested := requested full_run
                 @ [Get_timeout (concat_url (base_url (default_args\<lparr>no_progress := True\<rparr>))
                      ''/api/health'') 5]\<rparr>) of
       None \<Rightarrow> None
     | Some (Inl e, w2) \<Rightarrow> Some (Inl e, w2)
     | Some (Inr job_id, w2) \<Rightarrow>
         after_upload concat_url no_ratio (default_args\<lparr>no_progress := True\<rparr>)
           (\<not> no_progress (default_args\<lparr>no_progress := True\<rparr>)) job_id w2) =
   Some (0, world0\<lparr>
     requested := [Get_timeout ''http://localhost:5051/api/health'' 5,
       Post ''http://localhost:5051/api/upload'' [(''files'', ''video.mp4'', ''video.mp4'')]
         (build_options (default_args\<lparr>no_progress := True\<rparr>)),
       Get ''http://localhost:5051/api/jobs/abc123'',
       Get_stream ''http://localhost:5051/api/download/abc123''],
     fs := [''video.mp4'' \<mapsto> File ''GIF89a'', ''video-converted.gif'' \<mapsto> File ''GIF89a'']\<rparr>)"
  by (simp add: full_run_def video_world_def world0_def default_args_def DEFAULT_BASE_URL_def
      concat_url_def upload_file_def upload_open_def open_rb_def requests_call_def
      upload_result_def ok_def raise_for_status_def http_reply_def jobs_body_def no_fields_def
      get_or_def close_def basename_video after_upload_def wait_for_completion_def
      time_time_def poll_loop.simps job_reply_def truthy_def download_file_def
      stream_reply_def stream_response_def open_wb_def file_write_def main_exit_def
      splitext_video Let_def)

theorem main_health_check_witness:
  "main concat_url no_ratio default_args
     (video_world [Inl (Exn Requests_ConnectionError ''Connection refused'')]) =
     Some (1, video_world []\<lparr>
       requested := [Get_timeout ''http://localhost:5051/api/health'' 5],
       stderr := [''Error: Cannot connect to server at http://localhost:5051'' @ LF,
                  ''Make sure the gif-converter service is running.'' @ LF]\<rparr>) \<and>
   main concat_url no_ratio (default_args\<lparr>no_progress := True\<rparr>) full_run =
     Some (0, world0\<lparr>
       requested := [Get_timeout ''http://localhost:5051/api/health'' 5,
         Post ''http://localhost:5051/api/upload'' [(''files'', ''video.mp4'', ''video.mp4'')]
           (build_options (default_args\<lparr>no_progress := True\<rparr>)),
         Get ''http://localhost:5051/api/jobs/abc123'',
         Get_stream ''http://localhost:5051/api/download/abc123''],
       fs := [''video.mp4'' \<mapsto> File ''GIF89a'',
              ''video-converted.gif'' \<mapsto> File ''GIF89a'']\<rparr>)"
proof -
  let ?refused = "Exn Requests_ConnectionError ''Connection refused''"
  have "main concat_url no_ratio default_args (video_world [Inl ?refused]) =
      Some (1, (video_world [Inl ?refused])\<lparr>replies := [],
        requested := requested (video_world [Inl ?refused])
          @ [Get_timeout (concat_url (base_url default_args) ''/api/health'') 5],
        stderr := stderr (video_world [Inl ?refused]) @
          [''Error: Cannot connect to server at '' @ base_url default_args @ LF,
           ''Make sure the gif-converter service is running.'' @ LF]\<rparr>)"
    using main_health_check [of default_args "video_world [Inl ?refused]" "Inl ?refused" "[]"
        concat_url no_ratio]
    by (simp add: exists_def video_world_def world0_def default_args_def truthy_def
        is_connection_error_def)
  then have refused: "main concat_url no_ratio default_args (video_world [Inl ?refused]) =
     Some (1, video_world []\<lparr>
       requested := [Get_timeout ''http://localhost:5051/api/health'' 5],
       stderr := [''Error: Cannot connect to server at http://localhost:5051'' @ LF,
                  ''Make sure the gif-converter service is running.'' @ LF]\<rparr>)"
    by (simp add: video_world_def world0_def default_args_def DEFAULT_BASE_URL_def concat_url_def)
  let ?a = "default_args\<lparr>no_progress := True\<rparr>"
  have "replies full_run = Inr (http_reply 500 '''' (NotJSON '''')) # tl (replies full_run)"
    by (simp add: full_run_def video_world_def)
  from main_health_check [OF _ _ this, of ?a concat_url no_ratio]
  have "main concat_url no_ratio ?a full_run =
     main_exit
       (case upload_file concat_url (base_url ?a) (input' ?a) (build_options ?a) (bg_image ?a)
               (\<not> no_progress ?a)
               (full_run\<lparr>replies := tl (replies full_run),
                  requested := requested full_run
                    @ [Get_timeout (concat_url (base_url ?a) ''/api/health'') 5]\<rparr>) of
          None \<Rightarrow> None
        | Some (Inl e, w2) \<Rightarrow> Some (Inl e, w2)
        | Some (Inr job_id, w2) \<Rightarrow>
            after_upload concat_url no_ratio ?a (\<not> no_progress ?a) job_id w2)"
    by (simp add: exists_def full_run_def video_world_def world0_def default_args_def truthy_def)
  with refused show ?thesis
    by (simp only: full_run_after_upload simp_thms)
qed

end
